theory Spec2Isabelle
  imports Main "HOL-Library.AList"
begin

section \<open>JavaScript values and built-ins used by the plugin\<close>

text \<open>
  Strings are lists of characters, one \<^typ>\<open>char\<close> per UTF-16 code unit; the ids and
  option names of the development are ASCII.  Numbers are the integers: the counters,
  initial counts and suffix indices the code computes with are whole numbers far below
  \<open>2^53\<close>, where JavaScript's doubles are exact.  Exceptions are values of
  \<^typ>\<open>'e + 'a\<close>, \<open>Inl\<close> carrying the error.
\<close>

datatype js_error = TypeError | RangeError | SyntaxError

text \<open>The values a stored option can hold (the JSON of \<open>data.json\<close>).\<close>

datatype jsval = JBool bool | JNum int | JStr string | JObj "(string \<times> jsval) list"

text \<open>
  An object used as a dictionary is an association list of its own properties in
  insertion order, each key once; a property read \<open>o[k]\<close> is
  \<^term>\<open>map_of obj k\<close>, \<open>None\<close> standing for \<open>undefined\<close>, an assignment
  \<open>o[k] = v\<close> is \<^term>\<open>AList.update k v obj\<close> (in place for an existing key, at the
  end for a new one) and \<open>delete o[k]\<close> is \<^term>\<open>AList.delete k obj\<close>.
  \<open>Object.assign(target, source)\<close> assigns the properties of \<open>source\<close> to
  \<open>target\<close> in their order and skips a source that is \<open>undefined\<close>.  A list naming a
  key twice stands for the object \<open>map_of\<close> reads from it, the first pair of each key
  (\<^term>\<open>AList.clearjunk\<close>, which leaves a list of distinct keys as it is).
  JavaScript enumerates the keys that are array indices before the others; paths, option
  names and profile ids of that form are not treated apart.
\<close>

type_synonym MathContextSettings = "(string \<times> jsval) list"

definition Object_assign :: "('k \<times> 'v) list \<Rightarrow> ('k \<times> 'v) list option \<Rightarrow> ('k \<times> 'v) list" where
  "Object_assign target source =
     (case source of
        None \<Rightarrow> target
      | Some s \<Rightarrow> fold (\<lambda>(k, v). AList.update k v) (AList.clearjunk s) target)"

fun index_of :: "'a \<Rightarrow> 'a list \<Rightarrow> nat option" where
  "index_of c [] = None"
| "index_of c (x # xs) = (if c = x then Some 0 else map_option Suc (index_of c xs))"

definition toLowerCase :: "string \<Rightarrow> string" where
  "toLowerCase s =
     map (\<lambda>c. case index_of c ''ABCDEFGHIJKLMNOPQRSTUVWXYZ'' of
                None \<Rightarrow> c
              | Some i \<Rightarrow> ''abcdefghijklmnopqrstuvwxyz'' ! i) s"

definition DIGITS :: string where
  "DIGITS = ''0123456789abcdefghijklmnopqrstuvwxyz''"

text \<open>\<open>Number.prototype.toString(radix)\<close> on an integer: most significant digit first.\<close>

function radix_digits :: "nat \<Rightarrow> nat \<Rightarrow> nat list" where
  "radix_digits b n = (if b < 2 \<or> n < b then [n] else radix_digits b (n div b) @ [n mod b])"
  by pat_completeness auto
termination
  by (relation "measure (\<lambda>(b, n). n)") auto

definition Number_toString :: "nat \<Rightarrow> int \<Rightarrow> string" where
  "Number_toString radix num =
     (if num < 0 then CHR ''-'' # map (\<lambda>d. DIGITS ! d) (radix_digits radix (nat (- num)))
      else map (\<lambda>d. DIGITS ! d) (radix_digits radix (nat num)))"

definition js_String :: "int \<Rightarrow> string" where
  "js_String num = Number_toString 10 num"

text \<open>
  \<open>parseInt(str, radix)\<close> on a one-character string, as \<open>split("")\<close> produces them:
  the digit's value, or \<open>None\<close> for \<open>NaN\<close> (a sign alone, or a digit not below the radix).
\<close>

definition parseInt :: "char \<Rightarrow> nat \<Rightarrow> nat option" where
  "parseInt c radix =
     (case index_of c DIGITS of
        Some d \<Rightarrow> if d < radix then Some d else None
      | None \<Rightarrow>
          (case index_of c ''ABCDEFGHIJKLMNOPQRSTUVWXYZ'' of
             Some i \<Rightarrow> if i + 10 < radix then Some (i + 10) else None
           | None \<Rightarrow> None))"

text \<open>
  The unary \<open>+\<close> on a string cut out of \<open>String(num)\<close>: the empty string is 0, a run of
  decimal digits (with an optional leading minus) is its value, anything else is \<open>NaN\<close>.
\<close>

fun decimal_value :: "string \<Rightarrow> nat \<Rightarrow> nat option" where
  "decimal_value [] acc = Some acc"
| "decimal_value (c # cs) acc =
     (case index_of c ''0123456789'' of
        None \<Rightarrow> None
      | Some d \<Rightarrow> decimal_value cs (10 * acc + d))"

definition unary_plus :: "string \<Rightarrow> int option" where
  "unary_plus s =
     (case s of
        [] \<Rightarrow> Some 0
      | c # cs \<Rightarrow>
          if c = CHR ''-'' then
            (if cs = [] then None else map_option (\<lambda>n. - int n) (decimal_value cs 0))
          else map_option int (decimal_value s 0))"

section \<open>Numeral formatter (\<open>utils.ts\<close>)\<close>

definition ROMAN :: "string list" where
  "ROMAN = ['''', ''C'', ''CC'', ''CCC'', ''CD'', ''D'', ''DC'', ''DCC'', ''DCCC'', ''CM'',
            '''', ''X'', ''XX'', ''XXX'', ''XL'', ''L'', ''LX'', ''LXX'', ''LXXX'', ''XC'',
            '''', ''I'', ''II'', ''III'', ''IV'', ''V'', ''VI'', ''VII'', ''VIII'', ''IX'']"

text \<open>\<open>ROMAN[k] ?? ""\<close>: an index outside the table reads \<open>undefined\<close>.\<close>

definition ROMAN_at :: "int \<Rightarrow> string" where
  "ROMAN_at k = (if 0 \<le> k \<and> k < int (length ROMAN) then ROMAN ! nat k else [])"

text \<open>
  The loop \<open>let i = 3; while (i--) { roman = (ROMAN[+digits.pop() + (i * 10)] ?? "") + roman; }\<close>:
  the body runs with \<open>i = 2, 1, 0\<close>; \<open>pop\<close> on the empty array gives \<open>undefined\<close>,
  whose number is \<open>NaN\<close>.
\<close>

fun roman_loop :: "nat \<Rightarrow> string \<Rightarrow> string \<Rightarrow> string \<times> string" where
  "roman_loop 0 digits roman = (digits, roman)"
| "roman_loop (Suc i) digits roman =
     roman_loop i (butlast digits)
       ((case (if digits = [] then None else unary_plus [last digits]) of
           None \<Rightarrow> []
         | Some d \<Rightarrow> ROMAN_at (d + int i * 10)) @ roman)"

text \<open>
  \<open>Array(+digits.join("") + 1).join("M")\<close>: \<open>Array(k)\<close> throws a RangeError unless
  \<open>k\<close> is an integer in \<open>0 .. 2^32 - 1\<close>, and \<open>k\<close> empty slots join to \<open>k - 1\<close> letters.
\<close>

definition toRomanUpper :: "int \<Rightarrow> js_error + string" where
  "toRomanUpper num =
     (case roman_loop 3 (js_String num) [] of
        (digits, roman) \<Rightarrow>
          (case unary_plus digits of
             None \<Rightarrow> Inl RangeError
           | Some n \<Rightarrow>
               if n + 1 < 0 \<or> 4294967295 < n + 1 then Inl RangeError
               else Inr (concat (replicate (nat n) ''M'') @ roman)))"

definition toRomanLower :: "int \<Rightarrow> js_error + string" where
  "toRomanLower num =
     (case toRomanUpper num of Inl e \<Rightarrow> Inl e | Inr s \<Rightarrow> Inr (toLowerCase s))"

definition ALPH :: string where
  "ALPH = ''ABCDEFGHIJKLMNOPQRSTUVWXYZ''"

text \<open>
  \<open>(num - 1).toString(26).split("").map(str => ALPH[parseInt(str, 26)]).join("")\<close>;
  \<open>join\<close> prints an \<open>undefined\<close> element as the empty string.
\<close>

definition toAlphUpper :: "int \<Rightarrow> string" where
  "toAlphUpper num =
     concat (map (\<lambda>str. case parseInt str 26 of
                          None \<Rightarrow> []
                        | Some v \<Rightarrow> if v < length ALPH then [ALPH ! v] else [])
                 (Number_toString 26 (num - 1)))"

definition toAlphLower :: "int \<Rightarrow> string" where
  "toAlphLower num = toLowerCase (toAlphUpper num)"

datatype NumberStyle = arabic | alph | Alph | roman | Roman

fun CONVERTER :: "NumberStyle \<Rightarrow> int \<Rightarrow> js_error + string" where
  "CONVERTER arabic num = Inr (js_String num)"
| "CONVERTER alph num = Inr (toAlphLower num)"
| "CONVERTER Alph num = Inr (toAlphUpper num)"
| "CONVERTER roman num = toRomanLower num"
| "CONVERTER Roman num = toRomanUpper num"

text \<open>
  The reference enumeration the specification names for \<open>alph\<close>: bijective base 26,
  \<open>a, ..., z, aa, ab, ..., az, ba, ...\<close>.
\<close>

function spec_alph :: "nat \<Rightarrow> string" where
  "spec_alph n =
     (if n = 0 then []
      else spec_alph ((n - 1) div 26) @ [''abcdefghijklmnopqrstuvwxyz'' ! ((n - 1) mod 26)])"
  by pat_completeness auto
termination
  by (relation "measure id") auto

section \<open>Locations and the settings resolver (\<open>utils.ts\<close>)\<close>

text \<open>
  A \<open>TAbstractFile\<close> of the host: its path, whether it is a \<open>TFolder\<close>, what its
  \<open>isRoot()\<close> answers, and its parent (\<open>null\<close> above the vault root).  The parent is
  part of the value, so every ancestor chain is finite.
\<close>

datatype TAbstractFile =
  TAbstractFile (path: string) (isFolder: bool) (isRoot: bool) (parent: "TAbstractFile option")

text \<open>
  The loop of \<open>getAncestors\<close> pushes \<open>ancestor\<close> and then tests
  \<open>file instanceof TFolder && file.isRoot()\<close>, a condition on the starting file that does
  not change during the walk (\<open>stop\<close> below); otherwise it climbs until the parent is
  \<open>null\<close>.
\<close>

fun ancestors_loop :: "bool \<Rightarrow> TAbstractFile \<Rightarrow> TAbstractFile list" where
  "ancestors_loop stop (TAbstractFile p f r par) =
     TAbstractFile p f r par #
       (if stop then []
        else (case par of None \<Rightarrow> [] | Some a \<Rightarrow> ancestors_loop stop a))"

definition getAncestors :: "TAbstractFile \<Rightarrow> TAbstractFile list" where
  "getAncestors file = rev (ancestors_loop (isFolder file \<and> isRoot file) file)"

record ProfileMeta =
  tags :: "string list"

text \<open>
  The display names of a profile: \<open>formatMathCalloutType\<close> reads them as
  \<open>profile.body.theorem[kind]\<close>, and the tables of \<open>DEFAULT_PROFILES\<close> in
  \<open>profile.ts\<close> are kept in that field.
\<close>

record ProfileBody =
  body_theorem :: "(string \<times> string) list"

record Profile =
  id' :: string
  meta :: ProfileMeta
  body :: ProfileBody

text \<open>
  The plugin object: \<open>settings\<close> (location path to stored partial configuration),
  \<open>excludedFiles\<close> and \<open>extraSettings.profiles\<close>.
\<close>

record MathBooster =
  settings :: "(string \<times> MathContextSettings) list"
  excludedFiles :: "string list option"
  profiles :: "(string \<times> Profile) list"

text \<open>
  \<open>resolveSettings\<close>; \<open>DEFAULT_SETTINGS\<close> is defined in \<open>settings/settings.ts\<close>,
  which is not among the sources, and is a parameter here.
\<close>

definition resolveSettings ::
  "MathContextSettings \<Rightarrow> MathContextSettings option \<Rightarrow> MathBooster \<Rightarrow> TAbstractFile
     \<Rightarrow> MathContextSettings" where
  "resolveSettings DEFAULT_SETTINGS callout plugin currentFile =
     (let resolvedSettings = Object_assign [] (Some DEFAULT_SETTINGS);
          resolvedSettings =
            fold (\<lambda>ancestor acc. Object_assign acc (map_of (settings plugin) (path ancestor)))
                 (getAncestors currentFile) resolvedSettings
      in Object_assign resolvedSettings callout)"

text \<open>
  The reading of the specification: the layers from the closest to the farthest are the
  block override, the stored configurations of the file, its parent, ..., the root, and
  the global default; the value of an option is given by the first layer defining it.
\<close>

fun first_defined :: "string \<Rightarrow> MathContextSettings option list \<Rightarrow> jsval option" where
  "first_defined k [] = None"
| "first_defined k (None # layers) = first_defined k layers"
| "first_defined k (Some c # layers) =
     (case map_of c k of Some v \<Rightarrow> Some v | None \<Rightarrow> first_defined k layers)"

definition layers_nearest_first ::
  "MathContextSettings \<Rightarrow> MathContextSettings option \<Rightarrow> MathBooster \<Rightarrow> TAbstractFile
     \<Rightarrow> MathContextSettings option list" where
  "layers_nearest_first DEFAULT_SETTINGS callout plugin currentFile =
     callout #
     map (\<lambda>ancestor. map_of (settings plugin) (path ancestor))
         (rev (getAncestors currentFile)) @
     [Some DEFAULT_SETTINGS]"

text \<open>
  Modelled from the spec: \<open>settings/settings.ts\<close>, which declares the options of
  \<open>MathContextSettings\<close>, is not among the sources.  The recognized options are the ones
  section 3 of the specification lists; they are the options the settings pane of
  \<open>settings/helper.ts\<close> edits, with the active profile.
\<close>

definition recognized_options :: "string list" where
  "recognized_options =
     [''lang'', ''mathCalloutStyle'', ''mathCalloutFontInherit'', ''titleSuffix'',
      ''labelPrefix'', ''rename'', ''numberPrefix'', ''numberSuffix'', ''numberInit'',
      ''numberStyle'', ''numberDefault'', ''refFormat'', ''eqNumberPrefix'',
      ''eqNumberSuffix'', ''eqNumberInit'', ''eqNumberStyle'', ''lineByLine'',
      ''eqRefPrefix'', ''eqRefSuffix'', ''profile'']"

definition populated :: "string list \<Rightarrow> MathContextSettings \<Rightarrow> bool" where
  "populated options c = list_all (\<lambda>k. map_of c k \<noteq> None) options"

section \<open>Loading the persisted settings (\<open>main.ts\<close>)\<close>

definition VAULT_ROOT :: string where
  "VAULT_ROOT = ''/''"

text \<open>The blob \<open>loadData()\<close> returns, each of its two fields possibly missing.\<close>

record LoadedData =
  data_settings :: "(string \<times> MathContextSettings) list option"
  data_excludedFiles :: "string list option"

definition loadSettings ::
  "MathContextSettings \<Rightarrow> LoadedData option \<Rightarrow> MathBooster \<Rightarrow> MathBooster" where
  "loadSettings DEFAULT_SETTINGS loadedData plugin =
     (case loadedData of
        Some d \<Rightarrow>
          plugin\<lparr>settings :=
                   Object_assign
                     (Object_assign [] (Some [(VAULT_ROOT, DEFAULT_SETTINGS)]))
                     (data_settings d),
                 excludedFiles := data_excludedFiles d\<rparr>
      | None \<Rightarrow>
          plugin\<lparr>settings :=
                   Object_assign
                     (Object_assign [] (Some [(VAULT_ROOT, DEFAULT_SETTINGS)]))
                     None,
                 excludedFiles := Some []\<rparr>)"

text \<open>Whether a layer (a stored configuration that may be absent) defines an option.\<close>

definition layer_defines :: "string \<Rightarrow> MathContextSettings option \<Rightarrow> bool" where
  "layer_defines k layer = (case layer of None \<Rightarrow> False | Some c \<Rightarrow> map_of c k \<noteq> None)"

subsection \<open>An example vault\<close>

text \<open>
  The vault root, a folder \<open>notes\<close> in it, a note in that folder and a note directly in
  the root; the root stores \<open>numberInit = 1\<close> and the folder \<open>numberInit = 2\<close>.
\<close>

definition example_root :: TAbstractFile where
  "example_root = TAbstractFile ''/'' True True None"

definition example_folder :: TAbstractFile where
  "example_folder = TAbstractFile ''notes'' True False (Some example_root)"

definition example_note :: TAbstractFile where
  "example_note = TAbstractFile ''notes/a.md'' False False (Some example_folder)"


definition example_defaults :: MathContextSettings where
  "example_defaults = map (\<lambda>k. (k, JStr [])) recognized_options"

definition example_plugin :: MathBooster where
  "example_plugin =
     \<lparr>settings = [(''/'', [(''numberInit'', JNum 1)]), (''notes'', [(''numberInit'', JNum 2)])],
      excludedFiles = Some [],
      profiles = []\<rparr>"

text \<open>
  The root entry of the in-memory settings has every one of the given options, and the
  configuration a blob stores under the root path, if any.
\<close>

definition root_populated :: "string list \<Rightarrow> MathBooster \<Rightarrow> bool" where
  "root_populated options plugin =
     (case map_of (settings plugin) VAULT_ROOT of
        None \<Rightarrow> False
      | Some c \<Rightarrow> populated options c)"

definition stored_root :: "LoadedData option \<Rightarrow> MathContextSettings option" where
  "stored_root loadedData =
     (case loadedData of
        None \<Rightarrow> None
      | Some d \<Rightarrow> (case data_settings d of None \<Rightarrow> None | Some s \<Rightarrow> map_of s VAULT_ROOT))"

definition example_blob :: LoadedData where
  "example_blob =
     \<lparr>data_settings = Some [(''/'', [(''numberStyle'', JStr ''roman'')])],
      data_excludedFiles = Some []\<rparr>"

section \<open>Title formatter (\<open>utils.ts\<close>)\<close>

text \<open>
  The fields of a \<open>ResolvedMathSettings\<close> object that the formatter reads, with the
  types \<open>settings.ts\<close> gives them; \<open>None\<close> is \<open>undefined\<close>, and the private field
  \<open>_index\<close> is \<open>index\<close> here.  On a number the unary \<open>+\<close> of
  \<open>+settings._index + +settings.numberInit\<close> is the identity.
\<close>

record ResolvedMathSettings =
  type :: string
  profile :: string
  number :: "string option"
  index :: "int option"
  numberInit :: "int option"
  numberStyle :: "NumberStyle option"
  numberPrefix :: string
  numberSuffix :: string
  title :: "string option"
  titleSuffix :: string

text \<open>
  \<open>plugin.extraSettings.profiles[settings.profile]\<close> is \<open>undefined\<close> for an unknown
  profile id, and reading \<open>.body\<close> of it throws a TypeError; an unknown kind reads
  \<open>undefined\<close> from the table.
\<close>

definition formatMathCalloutType ::
  "MathBooster \<Rightarrow> ResolvedMathSettings \<Rightarrow> js_error + string option" where
  "formatMathCalloutType plugin st =
     (case map_of (profiles plugin) (profile st) of
        None \<Rightarrow> Inl TypeError
      | Some p \<Rightarrow> Inr (map_of (body_theorem (body p)) (type st)))"

text \<open>String concatenation prints \<open>undefined\<close> by its name.\<close>

definition js_text :: "string option \<Rightarrow> string" where
  "js_text s = (case s of None \<Rightarrow> ''undefined'' | Some t \<Rightarrow> t)"

text \<open>
  \<open>formatTitleWithoutSubtitle\<close> returns the title together with the settings object
  it was passed, as the call leaves it: the statement
  \<open>settings.numberInit = settings.numberInit ?? 1\<close> writes to that object.
  \<open>DEFAULT_SETTINGS.numberStyle\<close> is the parameter \<open>defaultStyle\<close>.
\<close>

definition formatTitleWithoutSubtitle ::
  "NumberStyle \<Rightarrow> MathBooster \<Rightarrow> ResolvedMathSettings
     \<Rightarrow> (js_error + string option) \<times> ResolvedMathSettings" where
  "formatTitleWithoutSubtitle defaultStyle plugin st =
     (case formatMathCalloutType plugin st of
        Inl e \<Rightarrow> (Inl e, st)
      | Inr kindName \<Rightarrow>
          (case number st of
             None \<Rightarrow> (Inr kindName, st)
           | Some n \<Rightarrow>
               if n = [] then (Inr kindName, st)
               else if n = ''auto'' then
                 (case index st of
                    None \<Rightarrow> (Inr kindName, st)
                  | Some i \<Rightarrow>
                      (let init = (case numberInit st of None \<Rightarrow> 1 | Some k \<Rightarrow> k);
                           st' = st\<lparr>numberInit := Some init\<rparr>;
                           num = i + init;
                           style = (case numberStyle st' of None \<Rightarrow> defaultStyle | Some s \<Rightarrow> s)
                       in (case CONVERTER style num of
                             Inl e \<Rightarrow> (Inl e, st')
                           | Inr numberString \<Rightarrow>
                               if numberString = [] then (Inr kindName, st')
                               else (Inr (Some (js_text kindName @ '' '' @ numberPrefix st'
                                                @ numberString @ numberSuffix st')), st'))))
               else (Inr (Some (js_text kindName @ '' '' @ numberPrefix st @ n
                                @ numberSuffix st)), st)))"

definition formatTitle ::
  "NumberStyle \<Rightarrow> MathBooster \<Rightarrow> ResolvedMathSettings \<Rightarrow> bool
     \<Rightarrow> (js_error + string option) \<times> ResolvedMathSettings" where
  "formatTitle defaultStyle plugin st noTitleSuffix =
     (case formatTitleWithoutSubtitle defaultStyle plugin st of
        (Inl e, st') \<Rightarrow> (Inl e, st')
      | (Inr t0, st') \<Rightarrow>
          (let t1 = (case title st' of
                       None \<Rightarrow> t0
                     | Some sub \<Rightarrow> if sub = [] then t0
                                   else Some (js_text t0 @ '' ('' @ sub @ '')''));
               t2 = (if \<not> noTitleSuffix \<and> titleSuffix st' \<noteq> []
                     then Some (js_text t1 @ titleSuffix st') else t1)
           in (Inr t2, st')))"

section \<open>Profiles (\<open>profile.ts\<close>)\<close>

text \<open>
  Modelled from the spec: \<open>env.ts\<close>, which declares \<open>THEOREM_LIKE_ENV_IDs\<close>, is not
  among the sources.  The closed set of kinds is the one section 3 of the specification
  lists, in the order of the tables of \<open>DEFAULT_PROFILES\<close>.
\<close>

definition THEOREM_LIKE_ENV_IDs :: "string list" where
  "THEOREM_LIKE_ENV_IDs =
     [''axiom'', ''definition'', ''lemma'', ''proposition'', ''theorem'', ''corollary'',
      ''claim'', ''assumption'', ''example'', ''exercise'', ''conjecture'', ''hypothesis'',
      ''remark'']"

text \<open>
  The two built-in profiles.  The Japanese display names are not ASCII; they stand here
  by the romanised names, none of the properties below reads them.
\<close>

definition DEFAULT_PROFILES :: "(string \<times> Profile) list" where
  "DEFAULT_PROFILES =
     [(''English'',
       \<lparr>id' = ''English'', meta = \<lparr>tags = [''en'']\<rparr>,
        body = \<lparr>body_theorem =
          [(''axiom'', ''Axiom''), (''definition'', ''Definition''), (''lemma'', ''Lemma''),
           (''proposition'', ''Proposition''), (''theorem'', ''Theorem''),
           (''corollary'', ''Corollary''), (''claim'', ''Claim''),
           (''assumption'', ''Assumption''), (''example'', ''Example''),
           (''exercise'', ''Exercise''), (''conjecture'', ''Conjecture''),
           (''hypothesis'', ''Hypothesis''), (''remark'', ''Remark'')]\<rparr>\<rparr>),
      (''Japanese'',
       \<lparr>id' = ''Japanese'', meta = \<lparr>tags = [''ja'']\<rparr>,
        body = \<lparr>body_theorem =
          [(''axiom'', ''Kouri''), (''definition'', ''Teigi''), (''lemma'', ''Hodai''),
           (''proposition'', ''Meidai''), (''theorem'', ''Teiri''),
           (''corollary'', ''Kei''), (''claim'', ''Shuchou''),
           (''assumption'', ''Katei''), (''example'', ''Rei''),
           (''exercise'', ''Enshuu mondai''), (''conjecture'', ''Yosou''),
           (''hypothesis'', ''Kasetsu''), (''remark'', ''Chuu'')]\<rparr>\<rparr>)]"

subsection \<open>An example block\<close>

text \<open>
  A plugin holding the built-in profiles, and the resolved settings of a theorem block
  numbered automatically under the English profile, with empty number prefix and suffix.
\<close>

definition example_profile_plugin :: MathBooster where
  "example_profile_plugin =
     \<lparr>settings = [(''/'', [(''profile'', JStr ''English'')])],
      excludedFiles = Some [],
      profiles = DEFAULT_PROFILES\<rparr>"

definition example_block :: "NumberStyle \<Rightarrow> int option \<Rightarrow> int \<Rightarrow> ResolvedMathSettings" where
  "example_block style init i =
     \<lparr>type = ''theorem'', profile = ''English'', number = Some ''auto'', index = Some i,
      numberInit = init, numberStyle = Some style, numberPrefix = [], numberSuffix = [],
      title = None, titleSuffix = []\<rparr>"

section \<open>The settings resolver on a store of objects\<close>

text \<open>
  To see which objects \<open>resolveSettings\<close> writes to, the objects live in a store, a
  list indexed by address; the global default, the block override and the stored
  configurations are given by their addresses, so that two of them may be one object (as
  \<open>plugin.settings["/"]\<close> and \<open>DEFAULT_SETTINGS\<close> are after \<open>loadSettings\<close>
  without a blob).  The literal \<open>{}\<close> allocates a new object at the end of the store, and
  \<open>Object.assign(target, source)\<close> overwrites the object at \<open>target\<close>.
\<close>

definition store_assign ::
  "MathContextSettings list \<Rightarrow> nat \<Rightarrow> nat option \<Rightarrow> MathContextSettings list" where
  "store_assign h target source =
     (case source of
        None \<Rightarrow> h
      | Some a \<Rightarrow>
          if target < length h \<and> a < length h
          then h[target := Object_assign (h ! target) (Some (h ! a))]
          else h)"

definition resolveSettings_store ::
  "MathContextSettings list \<Rightarrow> nat \<Rightarrow> nat option \<Rightarrow> (string \<times> nat) list \<Rightarrow> TAbstractFile
     \<Rightarrow> nat \<times> MathContextSettings list" where
  "resolveSettings_store h DEFAULT_SETTINGS callout plugin_settings currentFile =
     (let resolvedSettings = length h;
          h = h @ [[]];
          h = store_assign h resolvedSettings (Some DEFAULT_SETTINGS);
          h = fold (\<lambda>ancestor h.
                      store_assign h resolvedSettings (map_of plugin_settings (path ancestor)))
                   (getAncestors currentFile) h;
          h = store_assign h resolvedSettings callout
      in (resolvedSettings, h))"

text \<open>The plugin settings read through the store: each path with the object at its address.\<close>

definition settings_in_store ::
  "MathContextSettings list \<Rightarrow> (string \<times> nat) list \<Rightarrow> (string \<times> MathContextSettings) list" where
  "settings_in_store h plugin_settings = map (\<lambda>(p, a). (p, h ! a)) plugin_settings"

text \<open>
  An example store: the global default at address 0, which is also the configuration
  stored for the root, the configuration of the folder \<open>notes\<close> at address 1 and a
  block override at address 2.
\<close>

definition example_store :: "MathContextSettings list" where
  "example_store =
     [example_defaults, [(''numberInit'', JNum 2)], [(''type'', JStr ''theorem'')]]"

definition example_refs :: "(string \<times> nat) list" where
  "example_refs = [(''/'', 0), (''notes'', 1)]"

section \<open>The profile registry (\<open>profile.ts\<close>)\<close>

text \<open>
  \<open>getAffectedFiles\<close>: the paths whose stored configuration names the profile.  The
  option \<open>profile\<close> holds a string, so \<open>localSettings.profile == oldProfileId\<close>
  compares two strings.
\<close>

definition getAffectedFiles :: "MathBooster \<Rightarrow> string \<Rightarrow> string list" where
  "getAffectedFiles plugin oldProfileId =
     map fst (filter (\<lambda>(p, localSettings). map_of localSettings ''profile'' = Some (JStr oldProfileId))
                     (settings plugin))"

text \<open>
  \<open>updateProfile\<close>: \<open>if (newID)\<close> holds for a non-empty string; reading a property of
  \<open>plugin.settings[path]\<close> for a path without stored configuration throws a TypeError.
\<close>

fun updateProfile :: "MathBooster \<Rightarrow> string list \<Rightarrow> string option \<Rightarrow> js_error + MathBooster" where
  "updateProfile plugin [] newID = Inr plugin"
| "updateProfile plugin (p # paths) newID =
     (case map_of (settings plugin) p of
        None \<Rightarrow> Inl TypeError
      | Some localSettings \<Rightarrow>
          updateProfile
            (plugin\<lparr>settings :=
               AList.update p
                 (case newID of
                    None \<Rightarrow> AList.delete ''profile'' localSettings
                  | Some n \<Rightarrow>
                      if n \<noteq> [] then AList.update ''profile'' (JStr n) localSettings
                      else AList.delete ''profile'' localSettings)
                 (settings plugin)\<rparr>)
            paths newID)"

text \<open>
  The regular expression \<open>/\(([1-9][0-9]*)\)/\<close>: \<open>regex_group_at\<close> matches it at the
  start of a string and returns the digits of the group, \<open>regex_match\<close> returns the
  group of the leftmost match.  The digits are taken greedily; a shorter run of digits is
  followed by a digit and cannot be closed by the parenthesis.
\<close>

definition is_digit :: "char \<Rightarrow> bool" where
  "is_digit c = (index_of c ''0123456789'' \<noteq> None)"

definition regex_group_at :: "string \<Rightarrow> string option" where
  "regex_group_at s =
     (case s of
        c1 # c2 # cs \<Rightarrow>
          if c1 = CHR ''('' \<and> is_digit c2 \<and> c2 \<noteq> CHR ''0'' then
            (case dropWhile is_digit cs of
               c3 # _ \<Rightarrow> if c3 = CHR '')'' then Some (c2 # takeWhile is_digit cs) else None
             | [] \<Rightarrow> None)
          else None
      | _ \<Rightarrow> None)"

fun regex_match :: "string \<Rightarrow> string option" where
  "regex_match [] = None"
| "regex_match (c # cs) =
     (case regex_group_at (c # cs) of
        Some g \<Rightarrow> Some g
      | None \<Rightarrow> regex_match cs)"

text \<open>
  The number \<open>makeIdOfCopy\<close> reads from an id:
  \<open>+(id.slice(oldID.length + 1).match(/\(([1-9][0-9]*)\)/)?.[1] ?? "0")\<close>.
\<close>

definition copy_number :: "string \<Rightarrow> string \<Rightarrow> int" where
  "copy_number oldID i =
     (case regex_match (drop (length oldID + 1) i) of
        None \<Rightarrow> 0
      | Some g \<Rightarrow> (case unary_plus g of None \<Rightarrow> 0 | Some n \<Rightarrow> n))"

text \<open>\<open>Math.max(...numbers)\<close> is \<open>-Infinity\<close> for no numbers (\<open>None\<close>).\<close>

definition Math_max :: "int list \<Rightarrow> int option" where
  "Math_max numbers = (case numbers of [] \<Rightarrow> None | n # ns \<Rightarrow> Some (fold max ns n))"

definition makeIdOfCopy :: "string \<Rightarrow> (string \<times> Profile) list \<Rightarrow> string" where
  "makeIdOfCopy oldID ps =
     (let newId = ''Copy of '' @ oldID in
      if map_of ps newId = None then newId
      else
        (let ids = map fst ps;
             numbers = map (copy_number oldID) ids
         in (case Math_max numbers of
               None \<Rightarrow> newId @ '' (-Infinity)''
             | Some m \<Rightarrow> newId @ '' ('' @ js_String (m + 1) @ '')'')))"

text \<open>
  The Copy button of \<open>ManageProfileModal\<close>.  \<open>JSON.parse(JSON.stringify(p))\<close> is a
  deep copy of a profile, and a SyntaxError when there is no profile under the id.
\<close>

definition ManageProfileModal_copy :: "string \<Rightarrow> MathBooster \<Rightarrow> js_error + MathBooster" where
  "ManageProfileModal_copy i plugin =
     (case map_of (profiles plugin) i of
        None \<Rightarrow> Inl SyntaxError
      | Some p \<Rightarrow>
          (let copied = p\<lparr>id' := makeIdOfCopy i (profiles plugin)\<rparr>
           in Inr (plugin\<lparr>profiles := AList.update (id' copied) copied (profiles plugin)\<rparr>)))"

text \<open>The Add button of \<open>AddProfileModal\<close>, for the name typed into the text field.\<close>

definition AddProfileModal_add :: "string \<Rightarrow> MathBooster \<Rightarrow> MathBooster" where
  "AddProfileModal_add i plugin =
     plugin\<lparr>profiles :=
       AList.update i
         \<lparr>id' = i, meta = \<lparr>tags = []\<rparr>,
          body = \<lparr>body_theorem = fold (\<lambda>envID b. AList.update envID [] b) THEOREM_LIKE_ENV_IDs []\<rparr>\<rparr>
         (profiles plugin)\<rparr>"

text \<open>
  The text fields of \<open>EditProfileModal\<close> write to the profile object the modal was
  opened on: its name, its tags (the text split at commas and trimmed, kept only when
  every tag is empty or matches \<open>/^[a-z\-]+$/\<close>) and its display names.
\<close>

fun split_comma :: "string \<Rightarrow> string \<Rightarrow> string list" where
  "split_comma [] cur = [cur]"
| "split_comma (c # cs) cur =
     (if c = CHR '','' then cur # split_comma cs [] else split_comma cs (cur @ [c]))"

definition is_space :: "char \<Rightarrow> bool" where
  "is_space c = (c = CHR '' '' \<or> c = CHR 0x09 \<or> c = CHR 0x0A \<or> c = CHR 0x0D)"

definition trim :: "string \<Rightarrow> string" where
  "trim s = rev (dropWhile is_space (rev (dropWhile is_space s)))"

definition valid_tag :: "string \<Rightarrow> bool" where
  "valid_tag tg = (tg = [] \<or> list_all (\<lambda>c. c = CHR ''-'' \<or> index_of c ''abcdefghijklmnopqrstuvwxyz'' \<noteq> None) tg)"

datatype profile_edit = SetName string | SetTags string | SetDisplayName string string

fun apply_edit :: "profile_edit \<Rightarrow> Profile \<Rightarrow> Profile" where
  "apply_edit (SetName v) p = p\<lparr>id' := v\<rparr>"
| "apply_edit (SetTags v) p =
     (let tgs = map trim (split_comma v []) in
      if list_all valid_tag tgs then p\<lparr>meta := \<lparr>tags = tgs\<rparr>\<rparr> else p)"
| "apply_edit (SetDisplayName envID v) p =
     p\<lparr>body := \<lparr>body_theorem = AList.update envID v (body_theorem (body p))\<rparr>\<rparr>"

text \<open>
  \<open>EditProfileModal.onClose\<close>: the keys of \<open>for (const oldID in profiles)\<close> are those
  present when the loop starts; a key deleted before its turn is skipped.
\<close>

fun onClose_loop :: "string list \<Rightarrow> MathBooster \<Rightarrow> js_error + MathBooster" where
  "onClose_loop [] plugin = Inr plugin"
| "onClose_loop (oldID # keys) plugin =
     (case map_of (profiles plugin) oldID of
        None \<Rightarrow> onClose_loop keys plugin
      | Some p \<Rightarrow>
          (let newID = id' p in
           if newID \<noteq> oldID then
             (let plugin1 = plugin\<lparr>profiles :=
                              AList.delete oldID (AList.update newID p (profiles plugin))\<rparr>;
                  affected = getAffectedFiles plugin1 oldID
              in (case updateProfile plugin1 affected (Some newID) of
                    Inl e \<Rightarrow> Inl e
                  | Inr plugin2 \<Rightarrow> onClose_loop keys plugin2))
           else onClose_loop keys plugin))"

definition EditProfileModal_onClose :: "MathBooster \<Rightarrow> js_error + MathBooster" where
  "EditProfileModal_onClose plugin = onClose_loop (map fst (profiles plugin)) plugin"

text \<open>
  An edit session: the modal is opened on the profile stored under \<open>key\<close>, the user
  changes fields, and the modal is closed.
\<close>

definition EditProfileModal_session ::
  "string \<Rightarrow> profile_edit list \<Rightarrow> MathBooster \<Rightarrow> js_error + MathBooster" where
  "EditProfileModal_session key edits plugin =
     EditProfileModal_onClose
       (plugin\<lparr>profiles :=
          AList.map_entry key (\<lambda>p. fold apply_edit edits p) (profiles plugin)\<rparr>)"

text \<open>
  The deletion flow.  \<open>ConfirmProfileDeletionModal\<close> is open on an id;
  \<open>UpdateProfileModal\<close> holds the deleted id, the affected paths collected when it was
  opened and the current value of its dropdown, which starts at the empty option.
\<close>

datatype modal =
    ManageProfileModal
  | ConfirmProfileDeletionModal string
  | UpdateProfileModal string "string list" string

datatype ui_event = OpenDelete string | ClickDelete | ClickConfirm | ClickCancel | SelectOption string

text \<open>\<open>UpdateProfileModal.onClose\<close>, which every way of closing that modal runs.\<close>

definition UpdateProfileModal_onClose :: "string \<Rightarrow> MathBooster \<Rightarrow> MathBooster" where
  "UpdateProfileModal_onClose deletedID plugin =
     plugin\<lparr>profiles := AList.delete deletedID (profiles plugin)\<rparr>"

fun ui_step :: "MathBooster \<times> modal \<Rightarrow> ui_event \<Rightarrow> js_error + MathBooster \<times> modal" where
  "ui_step (plugin, ManageProfileModal) (OpenDelete i) =
     (if map_of (profiles plugin) i \<noteq> None then Inr (plugin, ConfirmProfileDeletionModal i)
      else Inr (plugin, ManageProfileModal))"
| "ui_step (plugin, ConfirmProfileDeletionModal i) ClickDelete =
     (let affected = getAffectedFiles plugin i in
      if affected \<noteq> [] then Inr (plugin, UpdateProfileModal i affected [])
      else Inr (plugin\<lparr>profiles := AList.delete i (profiles plugin)\<rparr>, ManageProfileModal))"
| "ui_step (plugin, ConfirmProfileDeletionModal i) ClickCancel = Inr (plugin, ManageProfileModal)"
| "ui_step (plugin, UpdateProfileModal i affected newProfileID) (SelectOption v) =
     (if v = [] \<or> (map_of (profiles plugin) v \<noteq> None \<and> v \<noteq> i)
      then Inr (plugin, UpdateProfileModal i affected v)
      else Inr (plugin, UpdateProfileModal i affected newProfileID))"
| "ui_step (plugin, UpdateProfileModal i affected newProfileID) ClickConfirm =
     (case updateProfile plugin affected (Some newProfileID) of
        Inl e \<Rightarrow> Inl e
      | Inr plugin' \<Rightarrow> Inr (UpdateProfileModal_onClose i plugin', ManageProfileModal))"
| "ui_step (plugin, UpdateProfileModal i affected newProfileID) ClickCancel =
     Inr (UpdateProfileModal_onClose i plugin, ManageProfileModal)"
| "ui_step (plugin, m) _ = Inr (plugin, m)"

text \<open>
  The operations of the registry: adding a profile, an edit session, copying a profile,
  and the steps of the deletion flow.  The first three start from \<open>ManageProfileModal\<close>.
\<close>

datatype registry_event =
    Add string
  | Edit string "profile_edit list"
  | Copy string
  | Ui ui_event

fun registry_step :: "MathBooster \<times> modal \<Rightarrow> registry_event \<Rightarrow> js_error + MathBooster \<times> modal" where
  "registry_step (plugin, ManageProfileModal) (Add i) =
     Inr (AddProfileModal_add i plugin, ManageProfileModal)"
| "registry_step (plugin, ManageProfileModal) (Edit key edits) =
     (case EditProfileModal_session key edits plugin of
        Inl e \<Rightarrow> Inl e
      | Inr plugin' \<Rightarrow> Inr (plugin', ManageProfileModal))"
| "registry_step (plugin, ManageProfileModal) (Copy i) =
     (case ManageProfileModal_copy i plugin of
        Inl e \<Rightarrow> Inl e
      | Inr plugin' \<Rightarrow> Inr (plugin', ManageProfileModal))"
| "registry_step (plugin, m) (Ui e) = ui_step (plugin, m) e"
| "registry_step (plugin, m) _ = Inr (plugin, m)"

fun run :: "registry_event list \<Rightarrow> MathBooster \<times> modal \<Rightarrow> js_error + MathBooster \<times> modal" where
  "run [] s = Inr s"
| "run (e # es) s = (case registry_step s e of Inl err \<Rightarrow> Inl err | Inr s' \<Rightarrow> run es s')"




subsection \<open>Example tables\<close>


section \<open>Properties of the settings resolver\<close>

lemma map_of_fold_update:
  "distinct (map fst xs) \<Longrightarrow>
   map_of (fold (\<lambda>(k, v). AList.update k v) xs t) = map_of t ++ map_of xs"
proof (induction xs arbitrary: t)
  case Nil
  show ?case by simp
next
  case (Cons x xs)
  obtain k v where x: "x = (k, v)" by (cases x)
  from Cons.prems x have k: "map_of xs k = None" and d: "distinct (map fst xs)"
    by (auto simp: map_of_eq_None_iff)
  show ?case
  proof
    fix j
    show "map_of (fold (\<lambda>(k, v). AList.update k v) (x # xs) t) j = (map_of t ++ map_of (x # xs)) j"
      using k by (cases "j = k") (simp_all add: x Cons.IH [OF d] update_conv' map_add_def)
  qed
qed

text \<open>Read as a map, the assigned object is the target overridden by the source.\<close>

lemma map_of_Object_assign:
  "map_of (Object_assign t s) = (case s of None \<Rightarrow> map_of t | Some c \<Rightarrow> map_of t ++ map_of c)"
  by (simp add: Object_assign_def map_of_fold_update map_of_clearjunk split: option.splits)

lemma first_defined_append:
  "first_defined k (ls @ ls') =
     (case first_defined k ls of Some v \<Rightarrow> Some v | None \<Rightarrow> first_defined k ls')"
  by (induction k ls rule: first_defined.induct) (auto split: option.splits)

text \<open>The loop over the ancestors: a later (closer) ancestor overrides an earlier one.\<close>

lemma map_of_fold_Object_assign:
  "map_of (fold (\<lambda>a acc. Object_assign acc (g a)) as acc) k =
     (case first_defined k (map g (rev as)) of Some v \<Rightarrow> Some v | None \<Rightarrow> map_of acc k)"
proof (induction as arbitrary: acc)
  case Nil
  show ?case by simp
next
  case (Cons a as)
  show ?case
    by (cases "g a")
       (auto simp: Cons.IH first_defined_append map_of_Object_assign map_add_def
             split: option.splits)
qed

lemma resolveSettings_first_defined:
  "map_of (resolveSettings D c P f) k = first_defined k (layers_nearest_first D c P f)"
  by (cases c)
     (auto simp: resolveSettings_def layers_nearest_first_def Let_def map_of_Object_assign
                 map_of_fold_Object_assign first_defined_append map_add_def
           split: option.splits)

lemma first_defined_skip:
  "\<forall>l \<in> set ls. \<not> layer_defines k l \<Longrightarrow> first_defined k (ls @ ls') = first_defined k ls'"
  by (induction k ls rule: first_defined.induct) (auto simp: layer_defines_def)





lemma first_defined_default:
  "map_of D k = Some v \<Longrightarrow> \<exists>w. first_defined k (ls @ [Some D]) = Some w"
  by (induction k ls rule: first_defined.induct) (auto split: option.splits)

lemma resolveSettings_keeps_default_keys:
  "map_of D k \<noteq> None \<Longrightarrow> map_of (resolveSettings D c P f) k \<noteq> None"
proof -
  assume "map_of D k \<noteq> None"
  then obtain v where "map_of D k = Some v" by auto
  then obtain w where
    "first_defined k ((c # map (\<lambda>a. map_of (settings P) (path a)) (rev (getAncestors f)))
                      @ [Some D]) = Some w"
    using first_defined_default by blast
  then show ?thesis
    by (simp add: resolveSettings_first_defined layers_nearest_first_def)
qed

lemma populated_example_defaults: "populated recognized_options example_defaults"
  by (simp add: populated_def example_defaults_def recognized_options_def)

text \<open>
  Claim C4.  \<open>resolveSettings(undefined, plugin, L)\<close> is a total function of its
  arguments: it has no error result.  When the global default has every option of a list
  populated, so has the configuration returned for any location; and for a location none
  of whose ancestors (itself included) has a stored configuration, the result holds
  exactly the global default.
\<close>

theorem resolveSettings_populated:
  "(populated options D \<longrightarrow> populated options (resolveSettings D None P f))
   \<and> ((\<forall>a \<in> set (getAncestors f). map_of (settings P) (path a) = None) \<longrightarrow>
        map_of (resolveSettings D None P f) = map_of D)"
proof (intro conjI impI)
  assume "populated options D"
  then show "populated options (resolveSettings D None P f)"
    unfolding populated_def list_all_iff
    using resolveSettings_keeps_default_keys by blast
next
  assume none: "\<forall>a \<in> set (getAncestors f). map_of (settings P) (path a) = None"
  show "map_of (resolveSettings D None P f) = map_of D"
  proof
    fix k
    have "\<forall>l \<in> set (None # map (\<lambda>a. map_of (settings P) (path a)) (rev (getAncestors f))).
            \<not> layer_defines k l"
      using none by (auto simp: layer_defines_def)
    then have "first_defined k
                 ((None # map (\<lambda>a. map_of (settings P) (path a)) (rev (getAncestors f)))
                  @ [Some D]) = first_defined k [Some D]"
      by (rule first_defined_skip)
    then have "first_defined k (layers_nearest_first D None P f) = first_defined k [Some D]"
      by (simp add: layers_nearest_first_def)
    then show "map_of (resolveSettings D None P f) k = map_of D k"
      by (simp add: resolveSettings_first_defined split: option.splits)
  qed
qed

theorem resolveSettings_populated_witness:
  "populated recognized_options example_defaults
   \<and> populated recognized_options
        (resolveSettings example_defaults None example_plugin example_note)
   \<and> map_of (resolveSettings example_defaults None
               (example_plugin\<lparr>settings := []\<rparr>) example_note) = map_of example_defaults"
proof -
  have "\<forall>a \<in> set (getAncestors example_note).
          map_of (settings (example_plugin\<lparr>settings := []\<rparr>)) (path a) = None"
    by simp
  then show ?thesis
    using populated_example_defaults
      resolveSettings_populated [of recognized_options example_defaults example_plugin example_note]
      resolveSettings_populated [of recognized_options example_defaults
                                    "example_plugin\<lparr>settings := []\<rparr>" example_note]
    by blast
qed

section \<open>Properties of loading\<close>

lemma loadSettings_root_entry:
  "map_of (settings (loadSettings D loadedData P)) VAULT_ROOT =
     Some (case stored_root loadedData of None \<Rightarrow> D | Some c \<Rightarrow> c)"
  by (auto simp: loadSettings_def stored_root_def map_of_Object_assign map_add_def
           split: option.splits)

text \<open>
  Claim C7, as stated, fails: a blob that stores the partial configuration
  \<open>{numberStyle: "roman"}\<close> under the root path replaces the default entry as a
  whole, and the root entry in memory then lacks the other options.
\<close>

theorem loadSettings_root_counterexample:
  "populated recognized_options example_defaults
   \<and> \<not> root_populated recognized_options
          (loadSettings example_defaults (Some example_blob) example_plugin)"
proof
  show "populated recognized_options example_defaults"
    by (rule populated_example_defaults)
  have "stored_root (Some example_blob) = Some [(''numberStyle'', JStr ''roman'')]"
    by (simp add: stored_root_def example_blob_def VAULT_ROOT_def)
  then have "map_of (settings (loadSettings example_defaults (Some example_blob) example_plugin))
               VAULT_ROOT = Some [(''numberStyle'', JStr ''roman'')]"
    by (simp add: loadSettings_root_entry)
  then show "\<not> root_populated recognized_options
                 (loadSettings example_defaults (Some example_blob) example_plugin)"
    by (simp add: root_populated_def populated_def recognized_options_def)
qed

text \<open>
  Claim C7, amended.  After \<open>loadSettings\<close> the root path has an entry: the
  configuration the blob stores under the root path, taken as it is, when there is one,
  and \<open>DEFAULT_SETTINGS\<close> otherwise.  So the root entry has every recognized option
  populated when the defaults have and the blob is absent, stores nothing under the root
  path, or stores there a configuration that is itself fully populated.
\<close>

theorem loadSettings_root_entry_populated:
  "map_of (settings (loadSettings D loadedData P)) VAULT_ROOT =
     Some (case stored_root loadedData of None \<Rightarrow> D | Some c \<Rightarrow> c)
   \<and> (populated options D \<longrightarrow>
        (case stored_root loadedData of None \<Rightarrow> True | Some c \<Rightarrow> populated options c) \<longrightarrow>
        root_populated options (loadSettings D loadedData P))"
  by (auto simp: loadSettings_root_entry root_populated_def split: option.splits)

theorem loadSettings_root_entry_populated_witness:
  "root_populated recognized_options (loadSettings example_defaults None example_plugin)
   \<and> root_populated recognized_options
        (loadSettings example_defaults
           (Some \<lparr>data_settings = Some [(''notes'', [])], data_excludedFiles = None\<rparr>)
           example_plugin)"
proof -
  have "stored_root None = None"
    by (simp add: stored_root_def)
  moreover have
    "stored_root (Some \<lparr>data_settings = Some [(''notes'', [])], data_excludedFiles = None\<rparr>) = None"
    by (simp add: stored_root_def VAULT_ROOT_def)
  ultimately show ?thesis
    using populated_example_defaults
      loadSettings_root_entry_populated [of example_defaults None example_plugin recognized_options]
      loadSettings_root_entry_populated [of example_defaults
        "Some \<lparr>data_settings = Some [(''notes'', [])], data_excludedFiles = None\<rparr>"
        example_plugin recognized_options]
    by simp
qed

section \<open>Properties of the numeral formatter\<close>

text \<open>
  Claim C3.  \<open>toAlphLower\<close> agrees with the bijective base-26 enumeration on
  \<open>1 .. 26\<close>, but \<open>toAlphUpper\<close> prints \<open>num - 1\<close> in positional base 26 with
  \<open>A\<close> as the digit zero, so the enumeration continues after \<open>z\<close> with \<open>ba\<close>:
  27 gives \<open>ba\<close> where the reference gives \<open>aa\<close>, 52 gives \<open>bz\<close> (reference
  \<open>az\<close>) and 53 gives \<open>ca\<close> (reference \<open>ba\<close>).
\<close>

theorem toAlph_diverges_at_27:
  "list_all (\<lambda>n. toAlphLower (int n) = spec_alph n) [1..<27]
   \<and> toAlphLower 27 = ''ba'' \<and> toAlphUpper 27 = ''BA'' \<and> spec_alph 27 = ''aa''
   \<and> toAlphLower 52 = ''bz'' \<and> spec_alph 52 = ''az''
   \<and> toAlphLower 53 = ''ca'' \<and> spec_alph 53 = ''ba''"
  by code_simp

section \<open>Properties of the title formatter\<close>







section \<open>Effects of the resolver and of the formatter\<close>

lemma length_store_assign: "length (store_assign h t s) = length h"
  by (simp add: store_assign_def split: option.splits)

lemma store_assign_other: "a \<noteq> t \<Longrightarrow> store_assign h t s ! a = h ! a"
  by (simp add: store_assign_def split: option.splits)

lemma fold_store_assign_frame:
  "length (fold (\<lambda>x h'. store_assign h' t (g x)) xs h) = length h
   \<and> (a \<noteq> t \<longrightarrow> fold (\<lambda>x h'. store_assign h' t (g x)) xs h ! a = h ! a)"
  by (induction xs arbitrary: h) (simp_all add: store_assign_other length_store_assign)

text \<open>The call allocates one object, returns it and writes to no other.\<close>

lemma resolveSettings_store_frame:
  "fst (resolveSettings_store h d c refs f) = length h"
  "length (snd (resolveSettings_store h d c refs f)) = Suc (length h)"
  "a < length h \<Longrightarrow> snd (resolveSettings_store h d c refs f) ! a = h ! a"
  by (simp_all add: resolveSettings_store_def Let_def fold_store_assign_frame
                    store_assign_other length_store_assign nth_append)

lemma store_assign_fresh:
  "(\<forall>a. s = Some a \<longrightarrow> a < length h) \<Longrightarrow>
   store_assign (h @ [acc]) (length h) s = h @ [Object_assign acc (map_option ((!) h) s)]"
  by (cases s) (simp_all add: store_assign_def Object_assign_def nth_append)

lemma fold_store_assign_fresh:
  "\<forall>x \<in> set xs. \<forall>a. g x = Some a \<longrightarrow> a < length h \<Longrightarrow>
   fold (\<lambda>x h'. store_assign h' (length h) (g x)) xs (h @ [acc]) =
     h @ [fold (\<lambda>x acc. Object_assign acc (map_option ((!) h) (g x))) xs acc]"
  by (induction xs arbitrary: acc) (simp_all add: store_assign_fresh)

lemma map_of_settings_in_store:
  "map_of (settings_in_store h refs) p = map_option ((!) h) (map_of refs p)"
  by (induction refs) (auto simp: settings_in_store_def)

text \<open>
  The object returned on the store is the one the resolver computes from the values of
  the objects it is given.
\<close>

lemma resolveSettings_store_value:
  assumes "d < length h" and "\<forall>a. c = Some a \<longrightarrow> a < length h"
    and "\<forall>(p, a) \<in> set refs. a < length h"
  shows "snd (resolveSettings_store h d c refs f) ! length h =
           resolveSettings (h ! d) (map_option ((!) h) c)
             \<lparr>settings = settings_in_store h refs, excludedFiles = e, profiles = ps\<rparr> f"
proof -
  have refs: "\<forall>x \<in> set (getAncestors f). \<forall>a. map_of refs (path x) = Some a \<longrightarrow> a < length h"
    using assms(3) by (auto dest: map_of_SomeD)
  have d: "\<forall>a. Some d = Some a \<longrightarrow> a < length h"
    using assms(1) by simp
  show ?thesis
    unfolding resolveSettings_store_def resolveSettings_def Let_def
    by (simp add: store_assign_fresh [OF d, of "[]", simplified] assms(1)
                  fold_store_assign_fresh [OF refs] store_assign_fresh [OF assms(2)]
                  map_of_settings_in_store)
qed

lemma formatTitleWithoutSubtitle_frame:
  "snd (formatTitleWithoutSubtitle d P st) = st
   \<or> (numberInit st = None \<and> snd (formatTitleWithoutSubtitle d P st) = st\<lparr>numberInit := Some 1\<rparr>)"
  by (cases "numberInit st")
     (auto simp: formatTitleWithoutSubtitle_def Let_def split: sum.splits option.splits)

lemma formatTitleWithoutSubtitle_again:
  "fst (formatTitleWithoutSubtitle d P (snd (formatTitleWithoutSubtitle d P st))) =
     fst (formatTitleWithoutSubtitle d P st)"
  by (cases "numberInit st")
     (auto simp: formatTitleWithoutSubtitle_def formatMathCalloutType_def Let_def
           split: sum.splits option.splits)

lemma formatTitleWithoutSubtitle_snd_again:
  "snd (formatTitleWithoutSubtitle d P (snd (formatTitleWithoutSubtitle d P st))) =
     snd (formatTitleWithoutSubtitle d P st)"
  by (cases "numberInit st")
     (auto simp: formatTitleWithoutSubtitle_def formatMathCalloutType_def Let_def
           split: sum.splits option.splits)

lemma formatTitle_snd:
  "snd (formatTitle d P st b) = snd (formatTitleWithoutSubtitle d P st)"
  by (simp add: formatTitle_def Let_def split: prod.splits sum.splits)

lemma formatTitle_again:
  "formatTitle d P (snd (formatTitle d P st b)) b = formatTitle d P st b"
proof -
  let ?r = "formatTitleWithoutSubtitle d P st"
  have "formatTitleWithoutSubtitle d P (snd ?r) = ?r"
    by (rule prod_eqI)
       (simp_all add: formatTitleWithoutSubtitle_again formatTitleWithoutSubtitle_snd_again)
  then show ?thesis
    by (simp add: formatTitle_snd) (simp add: formatTitle_def)
qed

text \<open>
  Claim C8, as stated, fails for \<open>formatTitle\<close>: on a settings object with an
  automatic number, an index and no \<open>numberInit\<close>, the statement
  \<open>settings.numberInit = settings.numberInit ?? 1\<close> stores \<open>numberInit = 1\<close> in the
  object that was passed.
\<close>

theorem formatTitle_writes_numberInit_counterexample:
  "snd (formatTitle arabic example_profile_plugin (example_block arabic None 0) False)
     \<noteq> example_block arabic None 0"
  by (simp add: formatTitle_snd formatTitleWithoutSubtitle_def formatMathCalloutType_def Let_def
                example_profile_plugin_def example_block_def DEFAULT_PROFILES_def
           split: sum.splits)

text \<open>
  Claim C8, amended.  \<open>resolveSettings\<close> allocates the object it returns and writes
  to no other: every object of the store (the passed settings object, the stored
  configurations, the global default) is after the call what it was before, and the
  returned object is determined by the values of the arguments.  \<open>formatTitle\<close>
  writes to nothing but the field \<open>numberInit\<close> of the settings object it is passed: it
  leaves the object unchanged when that field is populated, as in every resolved settings
  object, and otherwise may store \<open>numberInit = 1\<close> in it; called again on the object as
  the first call left it, it returns the same title and changes nothing more.
\<close>

theorem resolveSettings_formatTitle_effects:
  "fst (resolveSettings_store h d c refs f) = length h
   \<and> length (snd (resolveSettings_store h d c refs f)) = Suc (length h)
   \<and> (\<forall>a < length h. snd (resolveSettings_store h d c refs f) ! a = h ! a)
   \<and> (d < length h \<longrightarrow> (\<forall>a. c = Some a \<longrightarrow> a < length h) \<longrightarrow>
        (\<forall>(p, a) \<in> set refs. a < length h) \<longrightarrow>
        snd (resolveSettings_store h d c refs f) ! length h =
          resolveSettings (h ! d) (map_option ((!) h) c)
            \<lparr>settings = settings_in_store h refs, excludedFiles = e, profiles = ps\<rparr> f)
   \<and> (numberInit st \<noteq> None \<longrightarrow> snd (formatTitle ds P st b) = st)
   \<and> (snd (formatTitle ds P st b) = st
        \<or> snd (formatTitle ds P st b) = st\<lparr>numberInit := Some 1\<rparr>)
   \<and> formatTitle ds P (snd (formatTitle ds P st b)) b = formatTitle ds P st b"
proof (intro conjI impI allI)
  show "fst (resolveSettings_store h d c refs f) = length h"
    and "length (snd (resolveSettings_store h d c refs f)) = Suc (length h)"
    by (rule resolveSettings_store_frame)+
  show "snd (resolveSettings_store h d c refs f) ! a = h ! a" if "a < length h" for a
    using that by (rule resolveSettings_store_frame)
  show "snd (resolveSettings_store h d c refs f) ! length h =
          resolveSettings (h ! d) (map_option ((!) h) c)
            \<lparr>settings = settings_in_store h refs, excludedFiles = e, profiles = ps\<rparr> f"
    if "d < length h" "\<forall>a. c = Some a \<longrightarrow> a < length h" "\<forall>(p, a) \<in> set refs. a < length h"
    using that by (rule resolveSettings_store_value)
  show "snd (formatTitle ds P st b) = st" if "numberInit st \<noteq> None"
    using that formatTitleWithoutSubtitle_frame [of ds P st] by (auto simp: formatTitle_snd)
  show "snd (formatTitle ds P st b) = st
        \<or> snd (formatTitle ds P st b) = st\<lparr>numberInit := Some 1\<rparr>"
    using formatTitleWithoutSubtitle_frame [of ds P st] by (auto simp: formatTitle_snd)
  show "formatTitle ds P (snd (formatTitle ds P st b)) b = formatTitle ds P st b"
    by (rule formatTitle_again)
qed

theorem resolveSettings_formatTitle_effects_witness:
  "snd (resolveSettings_store example_store 0 (Some 2) example_refs example_note) ! 0
     = example_store ! 0
   \<and> snd (resolveSettings_store example_store 0 (Some 2) example_refs example_note) ! 1
     = example_store ! 1
   \<and> snd (resolveSettings_store example_store 0 (Some 2) example_refs example_note) ! 2
     = example_store ! 2
   \<and> snd (resolveSettings_store example_store 0 (Some 2) example_refs example_note) ! 3
     = resolveSettings example_defaults (Some [(''type'', JStr ''theorem'')])
         \<lparr>settings = [(''/'', example_defaults), (''notes'', [(''numberInit'', JNum 2)])],
          excludedFiles = None, profiles = []\<rparr> example_note
   \<and> snd (formatTitle arabic example_profile_plugin (example_block roman (Some 1) 0) False)
     = example_block roman (Some 1) 0"
proof -
  have len: "length example_store = 3"
    by (simp add: example_store_def)
  have valid: "(0::nat) < length example_store"
    "\<forall>a. Some (2::nat) = Some a \<longrightarrow> a < length example_store"
    "\<forall>(p, a) \<in> set example_refs. a < length example_store"
    by (simp_all add: example_store_def example_refs_def)
  have init: "numberInit (example_block roman (Some 1) 0) \<noteq> None"
    by (simp add: example_block_def)
  have vals: "example_store ! 0 = example_defaults"
    "example_store ! 2 = [(''type'', JStr ''theorem'')]"
    "settings_in_store example_store example_refs =
       [(''/'', example_defaults), (''notes'', [(''numberInit'', JNum 2)])]"
    by (simp_all add: example_store_def example_refs_def settings_in_store_def)
  show ?thesis
    using valid init
      resolveSettings_formatTitle_effects
        [of example_store 0 "Some 2" example_refs example_note None "[]"
            "example_block roman (Some 1) 0" arabic example_profile_plugin False]
    by (simp add: len vals)
qed

section \<open>Properties of the profile registry\<close>
















text \<open>
  Claim C5.  With the root configuration naming the profile \<open>English\<close>, the flow
  Delete, then Cancel in the replacement dialog, ends in the manage dialog with the
  profile entry removed while the root configuration still names it:
  \<open>UpdateProfileModal.onClose\<close> deletes the entry however the dialog is closed.  The
  Confirm button of the same dialog first rewrites the affected configurations and leaves
  no reference.
\<close>

theorem cancel_leaves_dangling_reference:
  "(case run [Ui (OpenDelete ''English''), Ui ClickDelete, Ui ClickCancel]
             (example_profile_plugin, ManageProfileModal) of
      Inl e \<Rightarrow> False
    | Inr (P, m) \<Rightarrow>
        m = ManageProfileModal \<and> map_of (profiles P) ''English'' = None
        \<and> getAffectedFiles P ''English'' = [''/''])
   \<and> (case run [Ui (OpenDelete ''English''), Ui ClickDelete, Ui ClickConfirm]
             (example_profile_plugin, ManageProfileModal) of
      Inl e \<Rightarrow> False
    | Inr (P, m) \<Rightarrow>
        m = ManageProfileModal \<and> map_of (profiles P) ''English'' = None
        \<and> getAffectedFiles P ''English'' = [])"
  by code_simp

text \<open>
  Claim C9.  Starting from the built-in profiles, copy \<open>English\<close> twice and then
  \<open>Copy of English (1)\<close> twice.  For a further copy of \<open>Copy of English (1)\<close>,
  \<open>makeIdOfCopy\<close> returns \<open>Copy of Copy of English (1) (2)\<close>, which is already a key:
  the number read from that id is the one of its first group \<open>(1)\<close>, not of its suffix.
  The copy overwrites the existing profile and the table gains no entry.
\<close>

theorem makeIdOfCopy_returns_existing_id:
  "(case run [Copy ''English'', Copy ''English'', Copy ''Copy of English (1)'',
              Copy ''Copy of English (1)''] (example_profile_plugin, ManageProfileModal) of
      Inl e \<Rightarrow> False
    | Inr (P, m) \<Rightarrow>
        map fst (profiles P) =
          [''English'', ''Japanese'', ''Copy of English'', ''Copy of English (1)'',
           ''Copy of Copy of English (1)'', ''Copy of Copy of English (1) (2)'']
        \<and> makeIdOfCopy ''Copy of English (1)'' (profiles P) = ''Copy of Copy of English (1) (2)''
        \<and> map_of (profiles P) (makeIdOfCopy ''Copy of English (1)'' (profiles P)) \<noteq> None
        \<and> (case ManageProfileModal_copy ''Copy of English (1)'' P of
              Inl e \<Rightarrow> False
            | Inr P' \<Rightarrow> length (profiles P') = length (profiles P)))"
  by code_simp





end
